theory Spec2Isabelle
  imports Main
begin

section \<open>JavaScript values\<close>

text \<open>
  The handlers of \<^verbatim>\<open>server/replitAuth.ts\<close> read request bodies and session payloads
  typed \<^verbatim>\<open>any\<close>. The only operations the source applies to them are the truthiness
  test (\<^verbatim>\<open>if (x)\<close>, \<^verbatim>\<open>!x\<close>) and the read of a named property, so a JSON-shaped value
  type with these two operations is what the model needs. Numbers are integers here: a
  fractional JSON number is truthy like any non-zero number, and \<^verbatim>\<open>NaN\<close> is not JSON.
\<close>

datatype jsval =
    JUndefined
  | JNull
  | JBool bool
  | JNum int
  | JStr string
  | JArr "jsval list"
  | JObj "(string \<times> jsval) list"

text \<open>ECMAScript \<^verbatim>\<open>ToBoolean\<close>.\<close>

fun truthy :: "jsval \<Rightarrow> bool" where
  "truthy JUndefined = False"
| "truthy JNull = False"
| "truthy (JBool b) = b"
| "truthy (JNum n) = (n \<noteq> 0)"
| "truthy (JStr s) = (s \<noteq> [])"
| "truthy (JArr _) = True"
| "truthy (JObj _) = True"

datatype js_error = Error string | TypeError string

text \<open>
  The read \<^verbatim>\<open>v.k\<close> (also the destructuring \<^verbatim>\<open>const { k } = v\<close>) for a key \<open>k\<close> that
  no prototype defines (\<^verbatim>\<open>email\<close>, \<^verbatim>\<open>password\<close>): it throws a \<^verbatim>\<open>TypeError\<close> on
  \<^verbatim>\<open>undefined\<close> and \<^verbatim>\<open>null\<close>, finds an own property of an object, and is \<^verbatim>\<open>undefined\<close>
  on every other value.
\<close>

fun get_prop :: "jsval \<Rightarrow> string \<Rightarrow> js_error + jsval" where
  "get_prop JUndefined k = Inl (TypeError ''Cannot read properties of undefined'')"
| "get_prop JNull k = Inl (TypeError ''Cannot read properties of null'')"
| "get_prop (JObj kvs) k = Inr (case map_of kvs k of None \<Rightarrow> JUndefined | Some v \<Rightarrow> v)"
| "get_prop _ k = Inr JUndefined"


section \<open>Process environment (lines 11--16)\<close>

text \<open>
  \<^verbatim>\<open>REPL_ID\<close> is kept as its list of UTF-16 code units, since \<^verbatim>\<open>String.prototype.trim\<close>
  strips exactly the code units of ECMAScript's \<^verbatim>\<open>WhiteSpace\<close> and
  \<^verbatim>\<open>LineTerminator\<close> productions, several of which lie outside ASCII.
\<close>

definition js_whitespace :: "nat \<Rightarrow> bool" where
  "js_whitespace c \<longleftrightarrow>
     c \<in> {9, 10, 11, 12, 13, 32, 160, 5760, 8232, 8233, 8239, 8287, 12288, 65279}
     \<or> (8192 \<le> c \<and> c \<le> 8202)"

definition trim :: "nat list \<Rightarrow> nat list" where
  "trim s = rev (dropWhile js_whitespace (rev (dropWhile js_whitespace s)))"

text \<open>
  Line 12: \<^verbatim>\<open>process.env.REPL_ID && process.env.REPL_ID.trim() !== ""\<close>, used only as a
  condition. An unset variable and the empty string are falsy.
\<close>

definition isReplitEnvironment :: "nat list option \<Rightarrow> bool" where
  "isReplitEnvironment repl_id =
     (case repl_id of
        None \<Rightarrow> False
      | Some s \<Rightarrow> s \<noteq> [] \<and> trim s \<noteq> [])"

text \<open>Lines 14--16: an unset or empty \<^verbatim>\<open>REPLIT_DOMAINS\<close> is replaced by a default.\<close>

definition replit_domains :: "string option \<Rightarrow> string" where
  "replit_domains v =
     (case v of
        None \<Rightarrow> ''replit.app,replit.dev,replit.com''
      | Some s \<Rightarrow> if s = [] then ''replit.app,replit.dev,replit.com'' else s)"


section \<open>Tokens, principals, sessions and requests\<close>

text \<open>
  The ID token's claims as \<^verbatim>\<open>openid-client\<close> types them: \<^verbatim>\<open>exp\<close> is a number; every
  other claim is kept as it came.
\<close>

record claims =
  exp :: int
  claim_fields :: "(string \<times> jsval) list"

text \<open>
  A token endpoint response: \<^verbatim>\<open>tokens.claims()\<close> is \<^verbatim>\<open>IDToken | undefined\<close>,
  \<^verbatim>\<open>access_token\<close> a string, \<^verbatim>\<open>refresh_token\<close> an optional string.
\<close>

record tokens =
  tok_claims :: "claims option"
  tok_access_token :: string
  tok_refresh_token :: "string option"

text \<open>
  The user object of the federated path. It starts as \<^verbatim>\<open>{}\<close> (line 90), so each of the
  four fields can be \<^verbatim>\<open>undefined\<close>; \<open>other\<close> holds every property that
  \<^verbatim>\<open>updateUserSession\<close> does not name.
\<close>

record principal =
  claims :: "claims option"
  access_token :: "string option"
  refresh_token :: "string option"
  expires_at :: "int option"
  other :: "(string \<times> jsval) list"

text \<open>Lines 53--61. The last assignment reads the \<^verbatim>\<open>claims\<close> just stored.\<close>

definition updateUserSession :: "principal \<Rightarrow> tokens \<Rightarrow> principal" where
  "updateUserSession user tokens =
     (let u1 = user\<lparr>claims := tok_claims tokens\<rparr>;
          u2 = u1\<lparr>access_token := Some (tok_access_token tokens)\<rparr>;
          u3 = u2\<lparr>refresh_token := tok_refresh_token tokens\<rparr>
      in u3\<lparr>expires_at := (case claims u3 of None \<Rightarrow> None | Some c \<Rightarrow> Some (exp c))\<rparr>)"

text \<open>
  What the session store keeps for one session id: the demo user under the fixed key
  \<^verbatim>\<open>user\<close> (\<^verbatim>\<open>undefined\<close> when the key is not set) and the principal that passport
  serialises under \<^verbatim>\<open>passport.user\<close>.
\<close>

record session =
  user :: jsval
  passport_user :: "principal option"

text \<open>
  A request as the handlers see it: \<^verbatim>\<open>req.session\<close> (which the \<^verbatim>\<open>?.\<close> of lines 202 and
  219 allows to be \<^verbatim>\<open>undefined\<close>), \<^verbatim>\<open>req.sessionID\<close>, \<^verbatim>\<open>req.body\<close>, \<^verbatim>\<open>req.user\<close> as passport
  left it, and the value of \<^verbatim>\<open>req.isAuthenticated()\<close>.
\<close>

record request =
  req_session :: "session option"
  req_sessionID :: string
  req_body :: jsval
  req_user :: "principal option"
  req_isAuthenticated :: bool

text \<open>\<^verbatim>\<open>(req.session as any)?.user\<close>\<close>

definition session_user :: "request \<Rightarrow> jsval" where
  "session_user req = (case req_session req of None \<Rightarrow> JUndefined | Some s \<Rightarrow> user s)"


section \<open>Responses\<close>

text \<open>
  The message literals of the source, by the line that sends them (the texts of the demo
  endpoints are Russian strings).
\<close>

datatype message =
    Msg_fields_required    \<comment> \<open>line 125\<close>
  | Msg_bad_credentials    \<comment> \<open>line 131\<close>
  | Msg_login_ok           \<comment> \<open>line 139\<close>
  | Msg_login_error        \<comment> \<open>line 143\<close>
  | Msg_logout_error       \<comment> \<open>line 168\<close>
  | Msg_logout_ok          \<comment> \<open>line 170\<close>
  | Unauthorized           \<comment> \<open>lines 212, 227, 234, 244, 254\<close>

text \<open>What \<^verbatim>\<open>req.user\<close> can hold once the middleware has run.\<close>

datatype user_val = Payload jsval | Principal principal

datatype body =
    MessageBody message           \<comment> \<open>\<^verbatim>\<open>{ message }\<close>\<close>
  | UserBody user_val             \<comment> \<open>the user itself\<close>
  | LoginBody jsval message       \<comment> \<open>\<^verbatim>\<open>{ user, message }\<close>\<close>

record response =
  status :: nat
  body :: body

definition unauthorized :: response where
  "unauthorized = \<lparr>status = 401, body = MessageBody Unauthorized\<rparr>"


section \<open>The Identity Provider Client\<close>

datatype config = Configuration string

text \<open>
  The collaborators of a run: the process environment, the clock
  (\<^verbatim>\<open>Math.floor(Date.now() / 1000)\<close>), the outcome of the memoised discovery and the
  outcome of \<^verbatim>\<open>client.refreshTokenGrant\<close> for a configuration and a refresh token.
\<close>

record env =
  REPL_ID :: "nat list option"
  REPLIT_DOMAINS :: "string option"
  now :: int
  discovery :: "js_error + config"
  refreshTokenGrant :: "config \<Rightarrow> string \<Rightarrow> js_error + tokens"

text \<open>Lines 18--29.\<close>

definition getOidcConfig :: "env \<Rightarrow> js_error + config" where
  "getOidcConfig e =
     (if \<not> isReplitEnvironment (REPL_ID e) then Inl (Error ''Not in Replit environment'')
      else discovery e)"

text \<open>The calls a handler makes to the Identity Provider Client, in order.\<close>

datatype call = CallGetOidcConfig | CallRefreshTokenGrant string


section \<open>The authentication check (lines 217--257)\<close>

datatype outcome =
    Next user_val       \<comment> \<open>\<^verbatim>\<open>next()\<close> was called; the argument is \<^verbatim>\<open>req.user\<close> at that moment\<close>
  | Respond response
  | Thrown js_error

text \<open>Lines 248--256: the refresh inside \<^verbatim>\<open>try\<close>, every failure mapped to 401.\<close>

definition refresh :: "env \<Rightarrow> principal \<Rightarrow> string \<Rightarrow> outcome \<times> call list" where
  "refresh e u refreshToken =
     (case getOidcConfig e of
        Inl err \<Rightarrow> (Respond unauthorized, [CallGetOidcConfig])
      | Inr cfg \<Rightarrow>
          (case refreshTokenGrant e cfg refreshToken of
             Inl err \<Rightarrow>
               (Respond unauthorized, [CallGetOidcConfig, CallRefreshTokenGrant refreshToken])
           | Inr tokenResponse \<Rightarrow>
               (Next (Principal (updateUserSession u tokenResponse)),
                [CallGetOidcConfig, CallRefreshTokenGrant refreshToken])))"

text \<open>
  Lines 230--246: the federated branch. \<^verbatim>\<open>!user.expires_at\<close> holds for \<^verbatim>\<open>undefined\<close> and
  for \<^verbatim>\<open>0\<close>, \<^verbatim>\<open>!refreshToken\<close> for \<^verbatim>\<open>undefined\<close> and for the empty string; reading
  \<^verbatim>\<open>user.expires_at\<close> of an \<^verbatim>\<open>undefined\<close> user throws.
\<close>

definition federated_check :: "env \<Rightarrow> request \<Rightarrow> outcome \<times> call list" where
  "federated_check e req =
     (if \<not> req_isAuthenticated req then (Respond unauthorized, [])
      else
        (case req_user req of
           None \<Rightarrow> (Thrown (TypeError ''Cannot read properties of undefined''), [])
         | Some u \<Rightarrow>
             (case expires_at u of
                None \<Rightarrow> (Respond unauthorized, [])
              | Some t \<Rightarrow>
                  if t = 0 then (Respond unauthorized, [])
                  else if now e \<le> t then (Next (Principal u), [])
                  else
                    (case refresh_token u of
                       None \<Rightarrow> (Respond unauthorized, [])
                     | Some refreshToken \<Rightarrow>
                         if refreshToken = [] then (Respond unauthorized, [])
                         else refresh e u refreshToken))))"

definition isAuthenticated :: "env \<Rightarrow> request \<Rightarrow> outcome \<times> call list" where
  "isAuthenticated e req =
     (let sessionUser = session_user req in
      if truthy sessionUser then (Next (Payload sessionUser), [])
      else if \<not> isReplitEnvironment (REPL_ID e) then (Respond unauthorized, [])
      else federated_check e req)"


section \<open>The current-user query (lines 200--214)\<close>

definition auth_user_get :: "request \<Rightarrow> response" where
  "auth_user_get req =
     (let sessionUser = session_user req in
      if truthy sessionUser then \<lparr>status = 200, body = UserBody (Payload sessionUser)\<rparr>
      else if \<not> req_isAuthenticated req then unauthorized
      else
        (case req_user req of
           None \<Rightarrow> unauthorized
         | Some u \<Rightarrow> \<lparr>status = 200, body = UserBody (Principal u)\<rparr>))"


section \<open>Demo login (lines 120--145)\<close>

text \<open>
  The body of the \<^verbatim>\<open>try\<close> block. \<open>validateCredentials\<close> is the Credential Validator
  (\<^verbatim>\<open>storage.validateCredentials\<close>): it returns a user, a falsy value when nothing
  matches, or throws. \<open>Inl\<close> is an exception on its way to the \<^verbatim>\<open>catch\<close>; the session
  in the result is \<^verbatim>\<open>req.session\<close> after the handler.
\<close>

definition login_try ::
  "(jsval \<Rightarrow> jsval \<Rightarrow> js_error + jsval) \<Rightarrow> request \<Rightarrow> js_error + (response \<times> session option)"
where
  "login_try validateCredentials req =
     (case get_prop (req_body req) ''email'' of
        Inl err \<Rightarrow> Inl err
      | Inr email \<Rightarrow>
          (case get_prop (req_body req) ''password'' of
             Inl err \<Rightarrow> Inl err
           | Inr password \<Rightarrow>
               if \<not> truthy email \<or> \<not> truthy password
               then Inr (\<lparr>status = 400, body = MessageBody Msg_fields_required\<rparr>, req_session req)
               else
                 (case validateCredentials email password of
                    Inl err \<Rightarrow> Inl err
                  | Inr found \<Rightarrow>
                      if \<not> truthy found
                      then Inr (\<lparr>status = 401, body = MessageBody Msg_bad_credentials\<rparr>,
                                req_session req)
                      else
                        (case req_session req of
                           None \<Rightarrow> Inl (TypeError ''Cannot set properties of undefined'')
                         | Some s \<Rightarrow>
                             Inr (\<lparr>status = 200, body = LoginBody found Msg_login_ok\<rparr>,
                                  Some (s\<lparr>user := found\<rparr>))))))"

text \<open>
  The handler: the reply, the session afterwards, and what \<^verbatim>\<open>console.error\<close> wrote on the
  server.
\<close>

definition login_post ::
  "(jsval \<Rightarrow> jsval \<Rightarrow> js_error + jsval) \<Rightarrow> request \<Rightarrow> response \<times> session option \<times> js_error list"
where
  "login_post validateCredentials req =
     (case login_try validateCredentials req of
        Inl err \<Rightarrow> (\<lparr>status = 500, body = MessageBody Msg_login_error\<rparr>, req_session req, [err])
      | Inr (res, s) \<Rightarrow> (res, s, []))"


section \<open>Session store and demo logout (lines 164--172)\<close>

text \<open>
  The Session Store maps a session id to what it keeps. Its \<open>destroy\<close> operation is a
  collaborator: it reports an error or not and leaves the store in some state.
\<close>

type_synonym store = "string \<Rightarrow> session option"

type_synonym destroy_op = "store \<Rightarrow> string \<Rightarrow> js_error option \<times> store"

text \<open>
  \<^verbatim>\<open>req.session.destroy(cb)\<close> hands the session id to the store and calls \<open>cb\<close> with the
  store's error, if any; with no \<^verbatim>\<open>req.session\<close> the call itself throws.
\<close>

definition logout_post :: "destroy_op \<Rightarrow> store \<Rightarrow> request \<Rightarrow> outcome \<times> store" where
  "logout_post destroy st req =
     (case req_session req of
        None \<Rightarrow> (Thrown (TypeError ''Cannot read properties of undefined''), st)
      | Some s \<Rightarrow>
          (case destroy st (req_sessionID req) of
             (Some err, st') \<Rightarrow>
               (Respond \<lparr>status = 500, body = MessageBody Msg_logout_error\<rparr>, st')
           | (None, st') \<Rightarrow>
               (Respond \<lparr>status = 200, body = MessageBody Msg_logout_ok\<rparr>, st')))"

text \<open>
  The request that the middleware of lines 77--79 builds for a session id: the session
  middleware loads the store's entry, or starts an empty session under a fresh id when
  the store has none; passport's session support, with the identity (de)serialisers of
  lines 116--117, makes \<^verbatim>\<open>req.user\<close> the stored principal, and \<^verbatim>\<open>req.isAuthenticated()\<close>
  says whether there is one.
\<close>

definition incoming :: "store \<Rightarrow> string \<Rightarrow> string \<Rightarrow> jsval \<Rightarrow> request" where
  "incoming st sid fresh b =
     (case st sid of
        None \<Rightarrow>
          \<lparr>req_session = Some \<lparr>user = JUndefined, passport_user = None\<rparr>,
           req_sessionID = fresh, req_body = b, req_user = None, req_isAuthenticated = False\<rparr>
      | Some s \<Rightarrow>
          \<lparr>req_session = Some s, req_sessionID = sid, req_body = b,
           req_user = passport_user s, req_isAuthenticated = (passport_user s \<noteq> None)\<rparr>)"


section \<open>Strategy registration (lines 81--114)\<close>

text \<open>\<^verbatim>\<open>String.prototype.split\<close> with a one-character separator.\<close>

fun split_on :: "char \<Rightarrow> string \<Rightarrow> string list" where
  "split_on c [] = [[]]"
| "split_on c (x # xs) =
     (if x = c then [] # split_on c xs
      else (case split_on c xs of [] \<Rightarrow> [[x]] | w # ws \<Rightarrow> (x # w) # ws))"

record strategy =
  name :: string
  strategy_config :: config
  scope :: string
  callbackURL :: string

text \<open>Lines 98--104: the options handed to \<^verbatim>\<open>new Strategy\<close> for one domain.\<close>

definition strategy_name :: "string \<Rightarrow> string" where
  "strategy_name domain = ''replitauth:'' @ domain"

definition strategy_options :: "config \<Rightarrow> string \<Rightarrow> strategy" where
  "strategy_options cfg domain =
     \<lparr>name = strategy_name domain,
      strategy_config = cfg,
      scope = ''openid email profile offline_access'',
      callbackURL = ''https://'' @ domain @ ''/api/callback''\<rparr>"

text \<open>
  \<^verbatim>\<open>new Strategy(options, verify)\<close> of \<^verbatim>\<open>openid-client/passport\<close> either builds the
  strategy of its options or throws; it throws, for one, on a \<^verbatim>\<open>callbackURL\<close> that
  \<^verbatim>\<open>new URL\<close> cannot parse, such as one with a space in the host. Which options the
  constructor refuses is the library's: a collaborator that gives the exception thrown
  for the options, if any.
\<close>

type_synonym strategy_constructor = "strategy \<Rightarrow> js_error option"

definition new_strategy :: "strategy_constructor \<Rightarrow> config \<Rightarrow> string \<Rightarrow> js_error + strategy" where
  "new_strategy refused cfg domain =
     (case refused (strategy_options cfg domain) of
        Some err \<Rightarrow> Inl err
      | None \<Rightarrow> Inr (strategy_options cfg domain))"

text \<open>\<^verbatim>\<open>passport.use(strategy)\<close> files the strategy under its name.\<close>

type_synonym registry = "string \<Rightarrow> strategy option"

definition passport_use :: "strategy \<Rightarrow> registry \<Rightarrow> registry" where
  "passport_use s reg = reg(name s \<mapsto> s)"

text \<open>
  Lines 96--108: the loop over the domains. It runs inside the \<^verbatim>\<open>try\<close> of line 83, so
  the first constructor that throws ends it: the strategies registered so far stay, and
  that domain and every later one get none. The result is the registry and the
  exception that ended the loop, if any.
\<close>

fun register_strategies ::
  "strategy_constructor \<Rightarrow> config \<Rightarrow> string list \<Rightarrow> registry \<Rightarrow> registry \<times> js_error option"
where
  "register_strategies refused cfg [] reg = (reg, None)"
| "register_strategies refused cfg (domain # domains) reg =
     (case new_strategy refused cfg domain of
        Inl err \<Rightarrow> (reg, Some err)
      | Inr s \<Rightarrow> register_strategies refused cfg domains (passport_use s reg))"

text \<open>
  Lines 82--114: the registry after \<^verbatim>\<open>setupAuth\<close>. A failed discovery and a throwing
  constructor are caught at line 109 and logged; the registry stays as it was at the
  throw.
\<close>

definition setupAuth_strategies :: "strategy_constructor \<Rightarrow> env \<Rightarrow> registry \<Rightarrow> registry" where
  "setupAuth_strategies refused e reg =
     (if isReplitEnvironment (REPL_ID e) then
        (case getOidcConfig e of
           Inl err \<Rightarrow> reg
         | Inr cfg \<Rightarrow>
             fst (register_strategies refused cfg
                    (split_on CHR '','' (replit_domains (REPLIT_DOMAINS e))) reg))
      else reg)"


section \<open>Concrete runs\<close>

text \<open>Values for evaluating the handlers on concrete requests.\<close>

definition demo_payload :: jsval where
  "demo_payload = JObj [(''id'', JNum 7), (''email'', JStr ''teacher@school.example'')]"

definition stale_principal :: principal where
  "stale_principal =
     \<lparr>claims = Some \<lparr>exp = 900, claim_fields = [(''sub'', JStr ''42'')]\<rparr>,
      access_token = Some ''at0'',
      refresh_token = Some ''rt0'',
      expires_at = Some 900,
      other = [(''note'', JStr ''kept'')]\<rparr>"

definition fresh_tokens :: tokens where
  "fresh_tokens =
     \<lparr>tok_claims = Some \<lparr>exp = 4600, claim_fields = [(''sub'', JStr ''42'')]\<rparr>,
      tok_access_token = ''at1'',
      tok_refresh_token = Some ''rt1''\<rparr>"

definition provider_config :: config where
  "provider_config = Configuration ''https://replit.com/oidc''"

text \<open>A deployment with the marker set, at time 1000; the provider accepts \<^verbatim>\<open>rt0\<close> only.\<close>

definition replit_env :: env where
  "replit_env =
     \<lparr>REPL_ID = Some [114, 101, 112, 108],
      REPLIT_DOMAINS = Some ''a.example,b.example'',
      now = 1000,
      discovery = Inr provider_config,
      refreshTokenGrant =
        (\<lambda>cfg rt. if rt = ''rt0'' then Inr fresh_tokens else Inl (Error ''invalid_grant''))\<rparr>"

text \<open>The same deployment without the marker and without a domain list.\<close>

definition plain_env :: env where
  "plain_env = replit_env\<lparr>REPL_ID := None, REPLIT_DOMAINS := None\<rparr>"

text \<open>A request of a federated session, with no demo user in the session.\<close>

definition federated_request :: "principal \<Rightarrow> request" where
  "federated_request u =
     \<lparr>req_session = Some \<lparr>user = JUndefined, passport_user = Some u\<rparr>,
      req_sessionID = ''sid1'',
      req_body = JUndefined,
      req_user = Some u,
      req_isAuthenticated = True\<rparr>"

text \<open>A request whose session holds both a demo user and a federated principal.\<close>

definition both_request :: request where
  "both_request =
     (federated_request stale_principal)
       \<lparr>req_session := Some \<lparr>user = demo_payload, passport_user = Some stale_principal\<rparr>\<rparr>"


text \<open>A store whose \<open>destroy\<close> fails and touches nothing, and one that removes the entry.\<close>

definition failing_destroy :: destroy_op where
  "failing_destroy st sid = (Some (Error ''connection terminated''), st)"

definition removing_destroy :: destroy_op where
  "removing_destroy st sid = (None, st(sid := None))"

text \<open>A stored demo session, and the request the middleware builds from it.\<close>

definition demo_session :: session where
  "demo_session = \<lparr>user = demo_payload, passport_user = None\<rparr>"

definition demo_store :: store where
  "demo_store = Map.empty(''sid1'' \<mapsto> demo_session)"

definition demo_request :: request where
  "demo_request = incoming demo_store ''sid1'' ''sid2'' JUndefined"

text \<open>A login request with a body, and a Credential Validator that knows one user.\<close>

definition login_request :: "jsval \<Rightarrow> request" where
  "login_request b =
     \<lparr>req_session = Some \<lparr>user = JUndefined, passport_user = None\<rparr>,
      req_sessionID = ''sid1'', req_body = b, req_user = None, req_isAuthenticated = False\<rparr>"

definition one_user :: "jsval \<Rightarrow> jsval \<Rightarrow> js_error + jsval" where
  "one_user email password =
     (if email = JStr ''teacher@school.example'' \<and> password = JStr ''secret''
      then Inr demo_payload else Inr JUndefined)"


text \<open>
  A constructor that refuses a callback URL with a space in it and accepts every other,
  and the deployment with a domain list written with a space after the first comma.
\<close>

definition refuse_spaces :: strategy_constructor where
  "refuse_spaces opts =
     (if CHR '' '' \<in> set (callbackURL opts) then Some (TypeError ''Invalid URL'') else None)"

definition spaced_env :: env where
  "spaced_env = replit_env\<lparr>REPLIT_DOMAINS := Some ''a.example, b.example,c.example''\<rparr>"

text \<open>How many times a run called \<^verbatim>\<open>client.refreshTokenGrant\<close>.\<close>

definition refresh_attempts :: "call list \<Rightarrow> nat" where
  "refresh_attempts cs =
     length (filter (\<lambda>c. case c of CallRefreshTokenGrant _ \<Rightarrow> True | CallGetOidcConfig \<Rightarrow> False) cs)"


section \<open>Results\<close>

subsection \<open>Auxiliary facts\<close>

lemma isRepl_replit_env: "isReplitEnvironment (REPL_ID replit_env)"
  by (simp add: replit_env_def isReplitEnvironment_def trim_def js_whitespace_def)

lemma no_demo_federated_request: "\<not> truthy (session_user (federated_request u))"
  by (simp add: session_user_def federated_request_def)

lemma strategy_name_inject: "strategy_name d = strategy_name d' \<longleftrightarrow> d = d'"
  by (simp add: strategy_name_def)

lemma register_strategies_lookup:
  "fst (register_strategies refused cfg ds reg) n =
     (if n \<in> strategy_name ` set (takeWhile (\<lambda>d. refused (strategy_options cfg d) = None) ds)
      then Some (strategy_options cfg (drop 11 n)) else reg n)"
proof (induction ds arbitrary: reg)
  case Nil
  then show ?case by simp
next
  case (Cons d ds)
  show ?case
  proof (cases "refused (strategy_options cfg d)")
    case (Some err)
    then show ?thesis by (simp add: new_strategy_def)
  next
    case None
    have step: "register_strategies refused cfg (d # ds) reg
        = register_strategies refused cfg ds (passport_use (strategy_options cfg d) reg)"
      using None by (simp add: new_strategy_def)
    have here: "passport_use (strategy_options cfg d) reg n
        = (if n = strategy_name d then Some (strategy_options cfg (drop 11 n)) else reg n)"
      by (simp add: passport_use_def strategy_options_def strategy_name_def)
    show ?thesis
      unfolding step Cons.IH here using None by auto
  qed
qed

lemma refresh_call_made:
  assumes "CallRefreshTokenGrant rt \<in> set (snd (isAuthenticated e req))"
  shows "\<not> truthy (session_user req) \<and> isReplitEnvironment (REPL_ID e)
    \<and> req_isAuthenticated req
    \<and> (\<exists>u t. req_user req = Some u \<and> expires_at u = Some t \<and> t \<noteq> 0 \<and> t < now e
          \<and> refresh_token u = Some rt \<and> rt \<noteq> []
          \<and> isAuthenticated e req = refresh e u rt)"
  using assms
  by (auto simp add: isAuthenticated_def federated_check_def Let_def refresh_def
      split: if_splits option.splits sum.splits)



subsection \<open>The authentication check and the current-user query\<close>

text \<open>
  C1. A request whose session carries a demo payload passes the authentication check with
  that payload attached as \<^verbatim>\<open>req.user\<close>, and \<^verbatim>\<open>GET /api/auth/user\<close> answers 200 with that
  payload. Neither result depends on \<^verbatim>\<open>req.user\<close>, on \<^verbatim>\<open>req.isAuthenticated()\<close>, on the
  clock or on the provider: replacing the federated principal by any other value changes
  nothing, and no call to the Identity Provider Client is made.
\<close>

theorem demo_session_wins:
  assumes "truthy (session_user req)"
  shows "isAuthenticated e req = (Next (Payload (session_user req)), [])
    \<and> auth_user_get req = \<lparr>status = 200, body = UserBody (Payload (session_user req))\<rparr>
    \<and> isAuthenticated e (req\<lparr>req_user := u, req_isAuthenticated := a\<rparr>) = isAuthenticated e req
    \<and> auth_user_get (req\<lparr>req_user := u, req_isAuthenticated := a\<rparr>) = auth_user_get req"
  using assms by (simp add: isAuthenticated_def auth_user_get_def session_user_def Let_def)

theorem demo_session_wins_witness:
  "truthy (session_user both_request)
   \<and> req_user both_request = Some stale_principal
   \<and> isAuthenticated replit_env both_request = (Next (Payload demo_payload), [])
   \<and> auth_user_get both_request = \<lparr>status = 200, body = UserBody (Payload demo_payload)\<rparr>"
  using demo_session_wins [where req = both_request and e = replit_env and u = None and a = False]
  by (simp add: session_user_def both_request_def federated_request_def demo_payload_def)

text \<open>
  C2. With no demo payload, on a deployment with the federated path enabled, an
  authenticated principal whose \<^verbatim>\<open>expires_at\<close> is not before the present time (seconds
  since the epoch, hence positive) proceeds, and the run calls neither the discovery nor
  the refresh operation.
\<close>

theorem fresh_principal_proceeds:
  assumes "\<not> truthy (session_user req)"
    and "isReplitEnvironment (REPL_ID e)"
    and "req_isAuthenticated req"
    and "req_user req = Some u"
    and "expires_at u = Some t"
    and "0 < now e"
    and "now e \<le> t"
  shows "isAuthenticated e req = (Next (Principal u), [])"
  using assms by (simp add: isAuthenticated_def federated_check_def Let_def)

theorem fresh_principal_proceeds_witness:
  "\<not> truthy (session_user (federated_request (stale_principal\<lparr>expires_at := Some 4600\<rparr>)))
   \<and> isReplitEnvironment (REPL_ID replit_env)
   \<and> now replit_env = 1000
   \<and> isAuthenticated replit_env (federated_request (stale_principal\<lparr>expires_at := Some 4600\<rparr>))
       = (Next (Principal (stale_principal\<lparr>expires_at := Some 4600\<rparr>)), [])"
  using fresh_principal_proceeds
    [where req = "federated_request (stale_principal\<lparr>expires_at := Some 4600\<rparr>)"
       and e = replit_env and u = "stale_principal\<lparr>expires_at := Some 4600\<rparr>" and t = 4600]
    isRepl_replit_env no_demo_federated_request
  by (simp add: federated_request_def stale_principal_def replit_env_def)

text \<open>
  C3. Whenever the check calls the refresh grant and the call succeeds, the request had an
  expired principal holding that refresh token, and it proceeds with the principal
  updated from the token response. The call is made, once, for every request with no
  demo payload, the federated path enabled and an authenticated principal that has
  expired (\<open>t < now\<close>, \<open>t\<close> the non-zero \<^verbatim>\<open>expires_at\<close>) and holds a refresh token. The
  update overwrites \<^verbatim>\<open>claims\<close>, \<^verbatim>\<open>access_token\<close>, \<^verbatim>\<open>refresh_token\<close> and \<^verbatim>\<open>expires_at\<close>
  from the response, \<^verbatim>\<open>expires_at\<close> being the \<^verbatim>\<open>exp\<close> of the new claims.
\<close>

theorem refresh_success_updates_session:
  "(CallRefreshTokenGrant rt \<in> set (snd (isAuthenticated e req))
      \<and> getOidcConfig e = Inr cfg \<and> refreshTokenGrant e cfg rt = Inr tk
     \<longrightarrow> (\<exists>u t. req_user req = Some u \<and> expires_at u = Some t \<and> t < now e
            \<and> refresh_token u = Some rt
            \<and> isAuthenticated e req =
                 (Next (Principal (updateUserSession u tk)),
                  [CallGetOidcConfig, CallRefreshTokenGrant rt])))
   \<and> (\<not> truthy (session_user req) \<and> isReplitEnvironment (REPL_ID e)
      \<and> req_isAuthenticated req \<and> req_user req = Some u
      \<and> expires_at u = Some t \<and> t \<noteq> 0 \<and> t < now e
      \<and> refresh_token u = Some rt \<and> rt \<noteq> []
      \<and> getOidcConfig e = Inr cfg \<and> refreshTokenGrant e cfg rt = Inr tk
     \<longrightarrow> isAuthenticated e req =
           (Next (Principal (updateUserSession u tk)),
            [CallGetOidcConfig, CallRefreshTokenGrant rt]))
   \<and> claims (updateUserSession u tk) = tok_claims tk
   \<and> access_token (updateUserSession u tk) = Some (tok_access_token tk)
   \<and> refresh_token (updateUserSession u tk) = tok_refresh_token tk
   \<and> expires_at (updateUserSession u tk) = map_option exp (tok_claims tk)"
proof -
  have a: "CallRefreshTokenGrant rt \<in> set (snd (isAuthenticated e req))
      \<and> getOidcConfig e = Inr cfg \<and> refreshTokenGrant e cfg rt = Inr tk
     \<longrightarrow> (\<exists>u t. req_user req = Some u \<and> expires_at u = Some t \<and> t < now e
            \<and> refresh_token u = Some rt
            \<and> isAuthenticated e req =
                 (Next (Principal (updateUserSession u tk)),
                  [CallGetOidcConfig, CallRefreshTokenGrant rt]))"
  proof (intro impI, elim conjE)
    assume c: "CallRefreshTokenGrant rt \<in> set (snd (isAuthenticated e req))"
      and g: "getOidcConfig e = Inr cfg" "refreshTokenGrant e cfg rt = Inr tk"
    from refresh_call_made [OF c] obtain u t where
      "req_user req = Some u" "expires_at u = Some t" "t < now e" "refresh_token u = Some rt"
      "isAuthenticated e req = refresh e u rt"
      by blast
    moreover have "refresh e u rt =
        (Next (Principal (updateUserSession u tk)), [CallGetOidcConfig, CallRefreshTokenGrant rt])"
      using g by (simp add: refresh_def)
    ultimately show "\<exists>u t. req_user req = Some u \<and> expires_at u = Some t \<and> t < now e
            \<and> refresh_token u = Some rt
            \<and> isAuthenticated e req =
                 (Next (Principal (updateUserSession u tk)),
                  [CallGetOidcConfig, CallRefreshTokenGrant rt])"
      by simp
  qed
  have b: "\<not> truthy (session_user req) \<and> isReplitEnvironment (REPL_ID e)
      \<and> req_isAuthenticated req \<and> req_user req = Some u
      \<and> expires_at u = Some t \<and> t \<noteq> 0 \<and> t < now e
      \<and> refresh_token u = Some rt \<and> rt \<noteq> []
      \<and> getOidcConfig e = Inr cfg \<and> refreshTokenGrant e cfg rt = Inr tk
     \<longrightarrow> isAuthenticated e req =
           (Next (Principal (updateUserSession u tk)),
            [CallGetOidcConfig, CallRefreshTokenGrant rt])"
    by (simp add: isAuthenticated_def federated_check_def refresh_def Let_def)
  have c: "claims (updateUserSession u tk) = tok_claims tk
   \<and> access_token (updateUserSession u tk) = Some (tok_access_token tk)
   \<and> refresh_token (updateUserSession u tk) = tok_refresh_token tk
   \<and> expires_at (updateUserSession u tk) = map_option exp (tok_claims tk)"
    by (simp add: updateUserSession_def Let_def split: option.split)
  from a b c show ?thesis by blast
qed

theorem refresh_success_updates_session_witness:
  "\<not> truthy (session_user (federated_request stale_principal))
   \<and> isReplitEnvironment (REPL_ID replit_env)
   \<and> expires_at stale_principal = Some 900 \<and> now replit_env = 1000
   \<and> refresh_token stale_principal = Some ''rt0''
   \<and> getOidcConfig replit_env = Inr provider_config
   \<and> refreshTokenGrant replit_env provider_config ''rt0'' = Inr fresh_tokens
   \<and> isAuthenticated replit_env (federated_request stale_principal) =
        (Next (Principal
           \<lparr>claims = Some \<lparr>exp = 4600, claim_fields = [(''sub'', JStr ''42'')]\<rparr>,
            access_token = Some ''at1'', refresh_token = Some ''rt1'',
            expires_at = Some 4600, other = [(''note'', JStr ''kept'')]\<rparr>),
         [CallGetOidcConfig, CallRefreshTokenGrant ''rt0''])"
proof -
  have cfg: "getOidcConfig replit_env = Inr provider_config"
    using isRepl_replit_env by (simp add: getOidcConfig_def) (simp add: replit_env_def)
  have grant: "refreshTokenGrant replit_env provider_config ''rt0'' = Inr fresh_tokens"
    by (simp add: replit_env_def)
  have p: "expires_at stale_principal = Some 900" "refresh_token stale_principal = Some ''rt0''"
    "now replit_env = 1000"
    by (simp_all add: stale_principal_def replit_env_def)
  have r: "req_isAuthenticated (federated_request stale_principal)"
    "req_user (federated_request stale_principal) = Some stale_principal"
    by (simp_all add: federated_request_def)
  have n: "(900::int) \<noteq> 0" "900 < now replit_env" "''rt0'' \<noteq> []"
    by (simp_all add: p)
  have new: "updateUserSession stale_principal fresh_tokens =
      \<lparr>claims = Some \<lparr>exp = 4600, claim_fields = [(''sub'', JStr ''42'')]\<rparr>,
       access_token = Some ''at1'', refresh_token = Some ''rt1'',
       expires_at = Some 4600, other = [(''note'', JStr ''kept'')]\<rparr>"
    by (simp add: updateUserSession_def stale_principal_def fresh_tokens_def)
  have "isAuthenticated replit_env (federated_request stale_principal) =
      (Next (Principal (updateUserSession stale_principal fresh_tokens)),
       [CallGetOidcConfig, CallRefreshTokenGrant ''rt0''])"
    using refresh_success_updates_session
      [where req = "federated_request stale_principal" and e = replit_env
        and u = stale_principal and t = 900 and rt = "''rt0''" and cfg = provider_config
        and tk = fresh_tokens]
      isRepl_replit_env no_demo_federated_request [of stale_principal] cfg grant p(1,2) r n
    by blast
  with isRepl_replit_env no_demo_federated_request cfg grant p show ?thesis
    by (simp add: new)
qed

text \<open>
  C4. With no demo payload, the federated path enabled and an authenticated principal
  that has expired (non-zero \<^verbatim>\<open>expires_at\<close> before the present time), the check answers
  401 Unauthorized exactly when the refresh token is missing or empty, or obtaining the
  provider configuration fails, or the refresh grant fails; otherwise the request
  proceeds. In every case at most one refresh grant is attempted, and none when there is
  no refresh token.
\<close>

theorem expired_principal_unauthorized_iff:
  assumes "\<not> truthy (session_user req)"
    and "isReplitEnvironment (REPL_ID e)"
    and "req_isAuthenticated req"
    and "req_user req = Some u"
    and "expires_at u = Some t"
    and "t \<noteq> 0"
    and "t < now e"
  shows "(fst (isAuthenticated e req) = Respond \<lparr>status = 401, body = MessageBody Unauthorized\<rparr>
          \<longleftrightarrow>
            refresh_token u = None \<or> refresh_token u = Some []
            \<or> (\<exists>rt err. refresh_token u = Some rt \<and> getOidcConfig e = Inl err)
            \<or> (\<exists>rt cfg err. refresh_token u = Some rt \<and> getOidcConfig e = Inr cfg
                  \<and> refreshTokenGrant e cfg rt = Inl err))
    \<and> (fst (isAuthenticated e req) = Respond \<lparr>status = 401, body = MessageBody Unauthorized\<rparr>
        \<or> (\<exists>u'. fst (isAuthenticated e req) = Next (Principal u')))
    \<and> refresh_attempts (snd (isAuthenticated e req)) \<le> 1
    \<and> (refresh_token u = None \<or> refresh_token u = Some []
        \<longrightarrow> snd (isAuthenticated e req) = [])"
  using assms
  by (auto simp add: isAuthenticated_def federated_check_def refresh_def
      unauthorized_def refresh_attempts_def Let_def split: option.split sum.split)

theorem expired_principal_unauthorized_iff_witness:
  "\<not> truthy (session_user (federated_request (stale_principal\<lparr>refresh_token := Some ''rt9''\<rparr>)))
   \<and> isReplitEnvironment (REPL_ID replit_env)
   \<and> expires_at (stale_principal\<lparr>refresh_token := Some ''rt9''\<rparr>) = Some 900
   \<and> now replit_env = 1000
   \<and> refreshTokenGrant replit_env provider_config ''rt9'' = Inl (Error ''invalid_grant'')
   \<and> isAuthenticated replit_env
        (federated_request (stale_principal\<lparr>refresh_token := Some ''rt9''\<rparr>))
       = (Respond \<lparr>status = 401, body = MessageBody Unauthorized\<rparr>,
          [CallGetOidcConfig, CallRefreshTokenGrant ''rt9''])
   \<and> isAuthenticated replit_env (federated_request (stale_principal\<lparr>refresh_token := None\<rparr>))
       = (Respond \<lparr>status = 401, body = MessageBody Unauthorized\<rparr>, [])"
proof -
  let ?u = "stale_principal\<lparr>refresh_token := Some ''rt9''\<rparr>"
  let ?v = "stale_principal\<lparr>refresh_token := None\<rparr>"
  have cfg: "getOidcConfig replit_env = Inr provider_config"
    using isRepl_replit_env by (simp add: getOidcConfig_def) (simp add: replit_env_def)
  have grant: "refreshTokenGrant replit_env provider_config ''rt9'' = Inl (Error ''invalid_grant'')"
    by (simp add: replit_env_def)
  have t: "expires_at ?u = Some 900" "expires_at ?v = Some 900" "now replit_env = 1000"
    by (simp_all add: stale_principal_def replit_env_def)
  have r: "req_isAuthenticated (federated_request ?u)" "req_user (federated_request ?u) = Some ?u"
    "req_isAuthenticated (federated_request ?v)" "req_user (federated_request ?v) = Some ?v"
    by (simp_all add: federated_request_def)
  have calls: "snd (isAuthenticated replit_env (federated_request ?u))
      = [CallGetOidcConfig, CallRefreshTokenGrant ''rt9'']"
    using isRepl_replit_env cfg grant
    by (simp add: isAuthenticated_def federated_check_def refresh_def Let_def
        session_user_def federated_request_def stale_principal_def t(3))
  have a: "fst (isAuthenticated replit_env (federated_request ?u))
      = Respond \<lparr>status = 401, body = MessageBody Unauthorized\<rparr>"
    using expired_principal_unauthorized_iff
      [OF no_demo_federated_request isRepl_replit_env r(1) r(2) t(1)]
      cfg grant t(3)
    by simp
  have b: "isAuthenticated replit_env (federated_request ?v)
      = (Respond \<lparr>status = 401, body = MessageBody Unauthorized\<rparr>, [])"
    using expired_principal_unauthorized_iff
      [OF no_demo_federated_request isRepl_replit_env r(3) r(4) t(2)] t(3)
    by (simp add: prod_eq_iff)
  from a b calls isRepl_replit_env grant t no_demo_federated_request show ?thesis
    by (simp add: prod_eq_iff)
qed

text \<open>
  C6. A request with no demo session payload is answered 401 Unauthorized whenever the
  federated path is disabled, whatever else the request and the collaborators hold, and
  no call to the Identity Provider Client is made; the path is disabled in particular
  when the marker \<^verbatim>\<open>REPL_ID\<close> is absent.
\<close>

theorem isAuthenticated_disabled_unauthorized:
  "(\<not> truthy (session_user req) \<and> \<not> isReplitEnvironment (REPL_ID e)
      \<longrightarrow> isAuthenticated e req = (Respond \<lparr>status = 401, body = MessageBody Unauthorized\<rparr>, []))
   \<and> (\<not> truthy (session_user req) \<and> REPL_ID e = None
      \<longrightarrow> isAuthenticated e req = (Respond \<lparr>status = 401, body = MessageBody Unauthorized\<rparr>, []))"
  by (simp add: isAuthenticated_def unauthorized_def isReplitEnvironment_def)

theorem isAuthenticated_disabled_unauthorized_witness:
  "\<not> truthy (session_user (federated_request stale_principal))
   \<and> REPL_ID plain_env = None
   \<and> \<not> isReplitEnvironment (REPL_ID plain_env)
   \<and> isAuthenticated plain_env (federated_request stale_principal)
       = (Respond \<lparr>status = 401, body = MessageBody Unauthorized\<rparr>, [])"
  using isAuthenticated_disabled_unauthorized
    [where req = "federated_request stale_principal" and e = plain_env]
  by (simp add: session_user_def federated_request_def plain_env_def replit_env_def
      isReplitEnvironment_def)

text \<open>
  C9. With no demo payload and the federated path enabled, an authenticated request
  whose principal has no \<^verbatim>\<open>expires_at\<close>, or has \<^verbatim>\<open>expires_at = 0\<close>, is answered 401 and no
  call to the Identity Provider Client is made. Conversely, a request with no demo
  payload that proceeds has a principal with a non-zero \<^verbatim>\<open>expires_at\<close>.
\<close>

theorem falsy_expiry_unauthorized:
  "(\<not> truthy (session_user req) \<and> isReplitEnvironment (REPL_ID e)
      \<and> req_isAuthenticated req \<and> req_user req = Some u
      \<and> (expires_at u = None \<or> expires_at u = Some 0)
     \<longrightarrow> isAuthenticated e req = (Respond \<lparr>status = 401, body = MessageBody Unauthorized\<rparr>, []))
   \<and> (\<not> truthy (session_user req) \<and> fst (isAuthenticated e req) = Next v
     \<longrightarrow> (\<exists>p t. req_user req = Some p \<and> expires_at p = Some t \<and> t \<noteq> 0))"
  by (auto simp add: isAuthenticated_def federated_check_def refresh_def
      unauthorized_def Let_def split: option.split sum.split if_splits)

theorem falsy_expiry_unauthorized_witness:
  "\<not> truthy (session_user (federated_request (stale_principal\<lparr>expires_at := Some 0\<rparr>)))
   \<and> isReplitEnvironment (REPL_ID replit_env)
   \<and> refresh_token (stale_principal\<lparr>expires_at := Some 0\<rparr>) = Some ''rt0''
   \<and> isAuthenticated replit_env (federated_request (stale_principal\<lparr>expires_at := Some 0\<rparr>))
       = (Respond \<lparr>status = 401, body = MessageBody Unauthorized\<rparr>, [])
   \<and> isAuthenticated replit_env (federated_request (stale_principal\<lparr>expires_at := None\<rparr>))
       = (Respond \<lparr>status = 401, body = MessageBody Unauthorized\<rparr>, [])"
  using
    falsy_expiry_unauthorized [where e = replit_env
      and req = "federated_request (stale_principal\<lparr>expires_at := Some 0\<rparr>)"
      and u = "stale_principal\<lparr>expires_at := Some 0\<rparr>"]
    falsy_expiry_unauthorized [where e = replit_env
      and req = "federated_request (stale_principal\<lparr>expires_at := None\<rparr>)"
      and u = "stale_principal\<lparr>expires_at := None\<rparr>"]
    isRepl_replit_env no_demo_federated_request
  by (simp add: federated_request_def stale_principal_def)

text \<open>
  C10. \<^verbatim>\<open>updateUserSession\<close> sets \<^verbatim>\<open>claims\<close>, \<^verbatim>\<open>access_token\<close>, \<^verbatim>\<open>refresh_token\<close> and
  \<^verbatim>\<open>expires_at\<close> from the token response, whatever they held before, and keeps every
  other property. A response without a \<^verbatim>\<open>refresh_token\<close> leaves the principal without
  one, and once that principal's new expiry has passed, a request with no demo payload
  is answered 401 without any call to the provider.
\<close>

theorem updateUserSession_frame:
  "updateUserSession u tk =
     \<lparr>claims = tok_claims tk,
      access_token = Some (tok_access_token tk),
      refresh_token = tok_refresh_token tk,
      expires_at = map_option exp (tok_claims tk),
      other = other u\<rparr>
   \<and> other (updateUserSession u tk) = other u
   \<and> (tok_refresh_token tk = None \<longrightarrow> refresh_token (updateUserSession u tk) = None)
   \<and> (tok_refresh_token tk = None \<and> tok_claims tk = Some c \<and> exp c < now e
        \<and> \<not> truthy (session_user req) \<and> req_isAuthenticated req
        \<and> req_user req = Some (updateUserSession u tk)
      \<longrightarrow> isAuthenticated e req = (Respond \<lparr>status = 401, body = MessageBody Unauthorized\<rparr>, []))"
  by (auto simp add: updateUserSession_def isAuthenticated_def federated_check_def
      unauthorized_def Let_def split: option.split)

theorem updateUserSession_frame_witness:
  "refresh_token stale_principal = Some ''rt0''
   \<and> updateUserSession stale_principal (fresh_tokens\<lparr>tok_refresh_token := None\<rparr>) =
       \<lparr>claims = Some \<lparr>exp = 4600, claim_fields = [(''sub'', JStr ''42'')]\<rparr>,
        access_token = Some ''at1'', refresh_token = None,
        expires_at = Some 4600, other = [(''note'', JStr ''kept'')]\<rparr>
   \<and> isAuthenticated (replit_env\<lparr>now := 5000\<rparr>)
        (federated_request
           (updateUserSession stale_principal (fresh_tokens\<lparr>tok_refresh_token := None\<rparr>)))
       = (Respond \<lparr>status = 401, body = MessageBody Unauthorized\<rparr>, [])"
  using updateUserSession_frame [where u = stale_principal
      and tk = "fresh_tokens\<lparr>tok_refresh_token := None\<rparr>"
      and c = "\<lparr>exp = 4600, claim_fields = [(''sub'', JStr ''42'')]\<rparr>"
      and e = "replit_env\<lparr>now := 5000\<rparr>"
      and req = "federated_request
           (updateUserSession stale_principal (fresh_tokens\<lparr>tok_refresh_token := None\<rparr>))"]
    no_demo_federated_request
  by (auto simp add: federated_request_def stale_principal_def fresh_tokens_def)


subsection \<open>Demo login and logout\<close>

text \<open>
  C5. \<^verbatim>\<open>POST /api/login\<close>: a body whose \<^verbatim>\<open>email\<close> or \<^verbatim>\<open>password\<close> is falsy (absent, or
  the empty string) is answered 400; with both present, a falsy result of the Credential
  Validator is answered 401; a user found is answered 200 with the user, and the session
  then holds that user under the key \<^verbatim>\<open>user\<close>; every exception (a throwing validator, a
  body that is \<^verbatim>\<open>undefined\<close>, a missing session) is answered 500 with one fixed message,
  the exception going to the server console only. No other status is sent.
\<close>

theorem login_post_statuses:
  "(get_prop (req_body req) ''email'' = Inr em \<and> get_prop (req_body req) ''password'' = Inr pw
      \<and> (\<not> truthy em \<or> \<not> truthy pw)
     \<longrightarrow> login_post vc req =
          (\<lparr>status = 400, body = MessageBody Msg_fields_required\<rparr>, req_session req, []))
   \<and> (req_body req = JObj kvs
      \<and> (map_of kvs ''email'' = None \<or> map_of kvs ''email'' = Some (JStr [])
          \<or> map_of kvs ''password'' = None \<or> map_of kvs ''password'' = Some (JStr []))
     \<longrightarrow> status (fst (login_post vc req)) = 400)
   \<and> (get_prop (req_body req) ''email'' = Inr em \<and> get_prop (req_body req) ''password'' = Inr pw
      \<and> truthy em \<and> truthy pw \<and> vc em pw = Inr found \<and> \<not> truthy found
     \<longrightarrow> login_post vc req =
          (\<lparr>status = 401, body = MessageBody Msg_bad_credentials\<rparr>, req_session req, []))
   \<and> (get_prop (req_body req) ''email'' = Inr em \<and> get_prop (req_body req) ''password'' = Inr pw
      \<and> truthy em \<and> truthy pw \<and> vc em pw = Inr found \<and> truthy found
      \<and> req_session req = Some s
     \<longrightarrow> login_post vc req =
          (\<lparr>status = 200, body = LoginBody found Msg_login_ok\<rparr>, Some (s\<lparr>user := found\<rparr>), []))
   \<and> (get_prop (req_body req) ''email'' = Inr em \<and> get_prop (req_body req) ''password'' = Inr pw
      \<and> truthy em \<and> truthy pw \<and> vc em pw = Inl err
     \<longrightarrow> login_post vc req =
          (\<lparr>status = 500, body = MessageBody Msg_login_error\<rparr>, req_session req, [err]))
   \<and> (login_try vc req = Inl err
     \<longrightarrow> login_post vc req =
          (\<lparr>status = 500, body = MessageBody Msg_login_error\<rparr>, req_session req, [err]))
   \<and> (req_body req = JUndefined \<or> req_body req = JNull
     \<longrightarrow> fst (login_post vc req) = \<lparr>status = 500, body = MessageBody Msg_login_error\<rparr>)
   \<and> (get_prop (req_body req) ''email'' = Inr em \<and> get_prop (req_body req) ''password'' = Inr pw
      \<and> truthy em \<and> truthy pw \<and> vc em pw = Inr found \<and> truthy found
      \<and> req_session req = None
     \<longrightarrow> fst (login_post vc req) = \<lparr>status = 500, body = MessageBody Msg_login_error\<rparr>)
   \<and> status (fst (login_post vc req)) \<in> {200, 400, 401, 500}"
  by (auto simp add: login_post_def login_try_def split: sum.split option.split)

theorem login_post_statuses_witness:
  "login_post one_user
     (login_request (JObj [(''email'', JStr ''''), (''password'', JStr ''x'')]))
     = (\<lparr>status = 400, body = MessageBody Msg_fields_required\<rparr>,
        Some \<lparr>user = JUndefined, passport_user = None\<rparr>, [])
   \<and> login_post one_user
     (login_request (JObj [(''email'', JStr ''nobody@school.example''), (''password'', JStr ''x'')]))
     = (\<lparr>status = 401, body = MessageBody Msg_bad_credentials\<rparr>,
        Some \<lparr>user = JUndefined, passport_user = None\<rparr>, [])
   \<and> login_post one_user
     (login_request (JObj [(''email'', JStr ''teacher@school.example''), (''password'', JStr ''secret'')]))
     = (\<lparr>status = 200, body = LoginBody demo_payload Msg_login_ok\<rparr>,
        Some \<lparr>user = demo_payload, passport_user = None\<rparr>, [])
   \<and> login_post (\<lambda>email password. Inl (Error ''database down''))
     (login_request (JObj [(''email'', JStr ''teacher@school.example''), (''password'', JStr ''secret'')]))
     = (\<lparr>status = 500, body = MessageBody Msg_login_error\<rparr>,
        Some \<lparr>user = JUndefined, passport_user = None\<rparr>, [Error ''database down''])"
  using
    login_post_statuses [where vc = one_user and em = "JStr ''''" and pw = "JStr ''x''"
      and req = "login_request (JObj [(''email'', JStr ''''), (''password'', JStr ''x'')])"]
    login_post_statuses [where vc = one_user and em = "JStr ''nobody@school.example''"
      and pw = "JStr ''x''" and found = JUndefined
      and req = "login_request (JObj [(''email'', JStr ''nobody@school.example''), (''password'', JStr ''x'')])"]
    login_post_statuses [where vc = one_user and em = "JStr ''teacher@school.example''"
      and pw = "JStr ''secret''" and found = demo_payload
      and s = "\<lparr>user = JUndefined, passport_user = None\<rparr>"
      and req = "login_request (JObj [(''email'', JStr ''teacher@school.example''), (''password'', JStr ''secret'')])"]
    login_post_statuses [where vc = "\<lambda>email password. Inl (Error ''database down'')"
      and em = "JStr ''teacher@school.example''"
      and pw = "JStr ''secret''" and err = "Error ''database down''"
      and req = "login_request (JObj [(''email'', JStr ''teacher@school.example''), (''password'', JStr ''secret'')])"]
  by (simp add: login_request_def one_user_def demo_payload_def)

text \<open>
  C7, as the code has it. For a request with a session, \<^verbatim>\<open>POST /api/logout\<close> asks the
  store to destroy the entry of the session id and answers 500 when the store reports
  an error, 200 with the success message otherwise; the store is left as the store's own
  operation left it. Whenever that operation removed the entry, a following
  \<^verbatim>\<open>GET /api/auth/user\<close> on the same session id is answered 401.
\<close>

theorem logout_post_destroys:
  assumes "req_session req = Some s"
  shows "(fst (destroy st (req_sessionID req)) \<noteq> None
          \<longrightarrow> fst (logout_post destroy st req)
              = Respond \<lparr>status = 500, body = MessageBody Msg_logout_error\<rparr>)
    \<and> (fst (destroy st (req_sessionID req)) = None
          \<longrightarrow> fst (logout_post destroy st req)
              = Respond \<lparr>status = 200, body = MessageBody Msg_logout_ok\<rparr>)
    \<and> snd (logout_post destroy st req) = snd (destroy st (req_sessionID req))
    \<and> (snd (destroy st (req_sessionID req)) (req_sessionID req) = None
          \<longrightarrow> auth_user_get (incoming (snd (logout_post destroy st req)) (req_sessionID req) fresh b)
              = \<lparr>status = 401, body = MessageBody Unauthorized\<rparr>)"
  using assms
  by (auto simp add: logout_post_def auth_user_get_def incoming_def session_user_def
      unauthorized_def split: prod.split option.split)

theorem logout_post_destroys_witness:
  "req_session demo_request = Some demo_session
   \<and> fst (logout_post removing_destroy demo_store demo_request)
       = Respond \<lparr>status = 200, body = MessageBody Msg_logout_ok\<rparr>
   \<and> auth_user_get (incoming (snd (logout_post removing_destroy demo_store demo_request))
        ''sid1'' ''sid2'' JUndefined)
       = \<lparr>status = 401, body = MessageBody Unauthorized\<rparr>"
proof -
  have s: "req_session demo_request = Some demo_session"
    by (simp add: demo_request_def incoming_def demo_store_def)
  have sid: "req_sessionID demo_request = ''sid1''"
    by (simp add: demo_request_def incoming_def demo_store_def)
  have ok: "fst (removing_destroy demo_store ''sid1'') = None"
    by (simp add: removing_destroy_def)
  have gone: "snd (removing_destroy demo_store ''sid1'') ''sid1'' = None"
    by (simp add: removing_destroy_def)
  show ?thesis
    using logout_post_destroys [OF s, where destroy = removing_destroy and st = demo_store
        and fresh = "''sid2''" and b = JUndefined] s ok gone
    by (auto simp add: sid)
qed

text \<open>
  C7 as stated fails when the store reports an error and keeps the entry: the logout is
  answered 500, and the following \<^verbatim>\<open>GET /api/auth/user\<close> on the same session id is
  answered 200 with the demo user, as before the logout.
\<close>

theorem logout_store_error_counterexample:
  "auth_user_get demo_request = \<lparr>status = 200, body = UserBody (Payload demo_payload)\<rparr>
   \<and> fst (logout_post failing_destroy demo_store demo_request)
       = Respond \<lparr>status = 500, body = MessageBody Msg_logout_error\<rparr>
   \<and> auth_user_get (incoming (snd (logout_post failing_destroy demo_store demo_request))
        ''sid1'' ''sid2'' JUndefined)
       = \<lparr>status = 200, body = UserBody (Payload demo_payload)\<rparr>"
  by (simp add: logout_post_def failing_destroy_def demo_request_def incoming_def demo_store_def
      demo_session_def auth_user_get_def session_user_def demo_payload_def)


subsection \<open>Strategy registration\<close>

text \<open>
  C8, as the code has it. When the federated path is enabled and discovery succeeds,
  \<^verbatim>\<open>setupAuth\<close> goes through the domains of the comma-separated list in order and stops at
  the first one whose options the strategy constructor refuses. Every domain before that
  one (every domain of the list, when the constructor refuses none) has one strategy in
  the registry under the name \<^verbatim>\<open>replitauth:{domain}\<close>, with callback URL
  \<^verbatim>\<open>https://{domain}/api/callback\<close>, and no other entry of the registry is changed;
  distinct domains have distinct strategy names. When the path is disabled or discovery
  fails, the registry is left unchanged.
\<close>

theorem setupAuth_registers_strategies:
  "(isReplitEnvironment (REPL_ID e) \<and> discovery e = Inr cfg \<longrightarrow>
      (\<forall>d \<in> set (takeWhile (\<lambda>d. refused (strategy_options cfg d) = None)
                     (split_on CHR '','' (replit_domains (REPLIT_DOMAINS e)))).
          setupAuth_strategies refused e reg (strategy_name d) =
            Some \<lparr>name = ''replitauth:'' @ d,
                  strategy_config = cfg,
                  scope = ''openid email profile offline_access'',
                  callbackURL = ''https://'' @ d @ ''/api/callback''\<rparr>)
      \<and> (\<forall>n. n \<notin> strategy_name `
                   set (takeWhile (\<lambda>d. refused (strategy_options cfg d) = None)
                          (split_on CHR '','' (replit_domains (REPLIT_DOMAINS e))))
            \<longrightarrow> setupAuth_strategies refused e reg n = reg n))
   \<and> (isReplitEnvironment (REPL_ID e) \<and> discovery e = Inr cfg
      \<and> (\<forall>d \<in> set (split_on CHR '','' (replit_domains (REPLIT_DOMAINS e))).
            refused (strategy_options cfg d) = None) \<longrightarrow>
      (\<forall>d \<in> set (split_on CHR '','' (replit_domains (REPLIT_DOMAINS e))).
          setupAuth_strategies refused e reg (strategy_name d) =
            Some \<lparr>name = ''replitauth:'' @ d,
                  strategy_config = cfg,
                  scope = ''openid email profile offline_access'',
                  callbackURL = ''https://'' @ d @ ''/api/callback''\<rparr>))
   \<and> (\<forall>d d'. strategy_name d = strategy_name d' \<longrightarrow> d = d')
   \<and> (\<not> isReplitEnvironment (REPL_ID e) \<or> discovery e = Inl err
        \<longrightarrow> setupAuth_strategies refused e reg = reg)"
proof -
  let ?ds = "split_on CHR '','' (replit_domains (REPLIT_DOMAINS e))"
  let ?ok = "\<lambda>d. refused (strategy_options cfg d) = None"
  have opts: "strategy_options cfg (drop 11 (strategy_name d)) =
      \<lparr>name = ''replitauth:'' @ d, strategy_config = cfg,
       scope = ''openid email profile offline_access'',
       callbackURL = ''https://'' @ d @ ''/api/callback''\<rparr>" for d
    by (simp add: strategy_options_def strategy_name_def)
  have run: "setupAuth_strategies refused e reg n =
      (if n \<in> strategy_name ` set (takeWhile ?ok ?ds)
       then Some (strategy_options cfg (drop 11 n)) else reg n)"
    if "isReplitEnvironment (REPL_ID e)" "discovery e = Inr cfg" for n
    using that
    by (simp add: setupAuth_strategies_def getOidcConfig_def register_strategies_lookup)
  have off: "setupAuth_strategies refused e reg = reg"
    if "\<not> isReplitEnvironment (REPL_ID e) \<or> discovery e = Inl err"
    using that by (auto simp add: setupAuth_strategies_def getOidcConfig_def)
  have all: "takeWhile ?ok ?ds = ?ds" if "\<forall>d \<in> set ?ds. ?ok d"
    using that by (simp add: takeWhile_eq_all_conv)
  show ?thesis
    using run off all opts strategy_name_inject by (intro conjI impI ballI allI) auto
qed

theorem setupAuth_registers_strategies_witness:
  "isReplitEnvironment (REPL_ID spaced_env)
   \<and> discovery spaced_env = Inr provider_config
   \<and> split_on CHR '','' (replit_domains (REPLIT_DOMAINS spaced_env))
       = [''a.example'', '' b.example'', ''c.example'']
   \<and> takeWhile (\<lambda>d. refuse_spaces (strategy_options provider_config d) = None)
        [''a.example'', '' b.example'', ''c.example''] = [''a.example'']
   \<and> setupAuth_strategies refuse_spaces spaced_env Map.empty ''replitauth:a.example'' =
        Some \<lparr>name = ''replitauth:a.example'',
              strategy_config = provider_config,
              scope = ''openid email profile offline_access'',
              callbackURL = ''https://a.example/api/callback''\<rparr>
   \<and> setupAuth_strategies refuse_spaces spaced_env Map.empty ''session'' = None"
proof -
  have r: "isReplitEnvironment (REPL_ID spaced_env)"
    using isRepl_replit_env by (simp add: spaced_env_def)
  have d: "discovery spaced_env = Inr provider_config"
    by (simp add: spaced_env_def replit_env_def)
  have ds: "split_on CHR '','' (replit_domains (REPLIT_DOMAINS spaced_env))
      = [''a.example'', '' b.example'', ''c.example'']"
    by (simp add: spaced_env_def replit_domains_def)
  have tw: "takeWhile (\<lambda>d. refuse_spaces (strategy_options provider_config d) = None)
      [''a.example'', '' b.example'', ''c.example''] = [''a.example'']"
    by (simp add: refuse_spaces_def strategy_options_def)
  have T: "(\<forall>d \<in> set [''a.example''].
          setupAuth_strategies refuse_spaces spaced_env Map.empty (strategy_name d) =
            Some \<lparr>name = ''replitauth:'' @ d,
                  strategy_config = provider_config,
                  scope = ''openid email profile offline_access'',
                  callbackURL = ''https://'' @ d @ ''/api/callback''\<rparr>)
      \<and> (\<forall>n. n \<notin> strategy_name ` set [''a.example'']
            \<longrightarrow> setupAuth_strategies refuse_spaces spaced_env Map.empty n = None)"
    using setupAuth_registers_strategies [where e = spaced_env and cfg = provider_config
        and refused = refuse_spaces and reg = Map.empty] r d
    unfolding ds tw by blast
  from T have a: "setupAuth_strategies refuse_spaces spaced_env Map.empty
        (strategy_name ''a.example'') =
      Some \<lparr>name = ''replitauth:a.example'', strategy_config = provider_config,
            scope = ''openid email profile offline_access'',
            callbackURL = ''https://a.example/api/callback''\<rparr>"
    by simp
  from T have b: "setupAuth_strategies refuse_spaces spaced_env Map.empty ''session'' = None"
    by (simp add: strategy_name_def)
  from r d ds tw a b show ?thesis
    by (simp add: strategy_name_def)
qed

text \<open>
  C8 as stated fails in two ways. On a deployment without the marker the domain list is
  the default of three domains and \<^verbatim>\<open>setupAuth\<close> registers a strategy for none of them.
  On a deployment with the marker and a list written \<^verbatim>\<open>a.example, b.example,c.example\<close>,
  the constructor refuses the callback URL of the second domain, which begins with a
  space: the loop ends there, and neither that domain nor \<^verbatim>\<open>c.example\<close>, whose options the
  constructor would accept, gets a strategy.
\<close>

theorem setupAuth_disabled_counterexample:
  "split_on CHR '','' (replit_domains (REPLIT_DOMAINS plain_env))
     = [''replit.app'', ''replit.dev'', ''replit.com'']
   \<and> setupAuth_strategies refuse_spaces plain_env Map.empty (strategy_name ''replit.app'') = None
   \<and> setupAuth_strategies refuse_spaces plain_env Map.empty (strategy_name ''replit.dev'') = None
   \<and> setupAuth_strategies refuse_spaces plain_env Map.empty (strategy_name ''replit.com'') = None
   \<and> split_on CHR '','' (replit_domains (REPLIT_DOMAINS spaced_env))
     = [''a.example'', '' b.example'', ''c.example'']
   \<and> refuse_spaces (strategy_options provider_config ''c.example'') = None
   \<and> setupAuth_strategies refuse_spaces spaced_env Map.empty (strategy_name '' b.example'') = None
   \<and> setupAuth_strategies refuse_spaces spaced_env Map.empty (strategy_name ''c.example'') = None"
proof -
  have r: "isReplitEnvironment (REPL_ID spaced_env)"
    using isRepl_replit_env by (simp add: spaced_env_def)
  have off: "setupAuth_strategies refuse_spaces plain_env Map.empty n = None" for n
    by (simp add: plain_env_def setupAuth_strategies_def isReplitEnvironment_def)
  have ds: "split_on CHR '','' (replit_domains (REPLIT_DOMAINS spaced_env))
      = [''a.example'', '' b.example'', ''c.example'']"
    by (simp add: spaced_env_def replit_domains_def)
  have ds': "split_on CHR '','' (replit_domains (REPLIT_DOMAINS plain_env))
      = [''replit.app'', ''replit.dev'', ''replit.com'']"
    by (simp add: plain_env_def replit_domains_def)
  have cfg: "getOidcConfig spaced_env = Inr provider_config"
    using r by (simp add: getOidcConfig_def) (simp add: spaced_env_def replit_env_def)
  have tw: "takeWhile (\<lambda>d. refuse_spaces (strategy_options provider_config d) = None)
      [''a.example'', '' b.example'', ''c.example''] = [''a.example'']"
    by (simp add: refuse_spaces_def strategy_options_def)
  have run: "setupAuth_strategies refuse_spaces spaced_env Map.empty n =
      fst (register_strategies refuse_spaces provider_config
             [''a.example'', '' b.example'', ''c.example''] Map.empty) n" for n
    using r by (simp add: setupAuth_strategies_def cfg ds del: register_strategies.simps)
  have on: "setupAuth_strategies refuse_spaces spaced_env Map.empty n =
      (if n = strategy_name ''a.example''
       then Some (strategy_options provider_config (drop 11 n)) else None)" for n
    unfolding run register_strategies_lookup tw by simp
  have c: "refuse_spaces (strategy_options provider_config ''c.example'') = None"
    by (simp add: refuse_spaces_def strategy_options_def)
  show ?thesis
    by (simp add: off on ds ds' c strategy_name_def)
qed

end
